theory Spec2Isabelle
  imports Main "HOL-Library.Sublist"
begin

section \<open>Configuration (services/config.ts)\<close>

text \<open>
  The constants of \<open>API_CONFIG\<close> that the transport client and the session code read.
  \<open>TIMEOUT\<close> depends on the build mode, which is a parameter here.
\<close>

definition RETRY_ATTEMPTS :: nat where
  "RETRY_ATTEMPTS = 3"

definition RETRY_DELAY :: nat where
  "RETRY_DELAY = 1000"

definition TIMEOUT :: "bool \<Rightarrow> nat" where
  "TIMEOUT isDevelopment = (if isDevelopment then 15000 else 10000)"

definition STORAGE_KEYS_TOKEN :: string where
  "STORAGE_KEYS_TOKEN = ''chitchat_token''"

definition STORAGE_KEYS_USER :: string where
  "STORAGE_KEYS_USER = ''chitchat_user''"

definition API_PREFIX :: string where
  "API_PREFIX = ''/api''"

definition AUTH_LOGIN :: string where
  "AUTH_LOGIN = ''/auth/login''"

definition AUTH_REGISTER :: string where
  "AUTH_REGISTER = ''/auth/register''"

definition AUTH_PROFILE :: string where
  "AUTH_PROFILE = ''/auth/profile''"

definition AUTH_LOGOUT :: string where
  "AUTH_LOGOUT = ''/auth/logout''"

definition SEND_MESSAGE :: "string \<Rightarrow> string" where
  "SEND_MESSAGE roomId = ''/chat/rooms/'' @ roomId @ ''/messages''"

text \<open>
  \<open>getApiUrl\<close>: the base URL comes from the environment and is a parameter. An empty
  base returns the endpoint as it is; otherwise one trailing slash of the base is
  dropped and the endpoint gets a leading slash when it has none.
\<close>

definition getApiUrl :: "string \<Rightarrow> string \<Rightarrow> string" where
  "getApiUrl baseUrl endpoint =
     (if baseUrl = [] then endpoint
      else
        (let cleanBase = (if last baseUrl = CHR ''/'' then butlast baseUrl else baseUrl);
             cleanEndpoint = (if take 1 endpoint = ''/'' then endpoint else ''/'' @ endpoint)
         in cleanBase @ API_PREFIX @ cleanEndpoint))"

section \<open>Data model (types.ts)\<close>

datatype user_status = Online | Offline | Away

record UserResponse =
  ur_id :: string
  full_name :: "string option"
  user_name :: "string option"
  ur_email :: string
  avatar_url :: "string option"
  ur_status :: bool

record User =
  user_id :: string
  fullName :: "string option"
  username :: "string option"
  email :: string
  avatarUrl :: "string option"
  user_status :: user_status

datatype message_type = Text | Image | Link | File

datatype wire_message_type = TEXT | IMAGE | LINK | FILE

text \<open>
  Instants (\<open>Date\<close> values, \<open>Date.now()\<close>) are milliseconds since the epoch. The wire
  format carries ISO 8601 strings; \<open>sentAt\<close> and \<open>mr_editedAt\<close> hold the instant the
  string denotes, since \<open>new Date(s)\<close> is the platform's parser.
\<close>

record MessageResponse =
  mr_id :: string
  mr_roomId :: string
  mr_senderId :: string
  mr_content :: string
  messageType :: wire_message_type
  sentAt :: nat
  mr_editedAt :: "nat option"
  mr_sender :: "UserResponse option"
  mr_isEdited :: "bool option"

record Message =
  msg_id :: string
  senderId :: string
  roomId :: string
  msg_text :: string
  timestamp :: nat
  msg_type :: message_type
  isEdited :: bool
  editedAt :: "nat option"
  sender :: "User option"

datatype chat_type = Dm | Group | Bot

record Chat =
  chat_id :: string
  chat_type :: chat_type
  chat_name :: string
  participants :: "User list"
  messages :: "Message list"
  chat_avatarUrl :: "string option"
  lastMessage :: "Message option"
  creatorId :: "string option"

record SendMessagePayload =
  smp_text :: string
  smp_type :: message_type

record LoginPayload =
  usernameOrEmail :: string
  lp_password :: "string option"

record RegisterPayload =
  rp_fullName :: "string option"
  rp_username :: "string option"
  rp_email :: string
  rp_password :: "string option"

section \<open>Faults and JavaScript helpers\<close>

text \<open>
  The fault body of a non-2xx response, at the shape the source declares for it
  (\<open>ErrorResponse\<close>); only the three properties the code reads are kept, each of them
  possibly absent.
\<close>

record ErrorResponse =
  message :: "string option"
  userMessage :: "string option"
  validationErrors :: "(string \<times> string) list option"

text \<open>
  Everything the code throws or catches. \<open>ApiError\<close> carries message, status and
  \<open>errorData\<close>; the constructor's third parameter is optional (\<open>uploadFile\<close> omits it),
  hence the option. \<open>JsError name message\<close> is any other \<open>Error\<close> instance
  (\<open>TypeError\<close>, \<open>SyntaxError\<close>, the \<open>AbortError\<close> of a cancelled fetch);
  \<open>NonError\<close> is a thrown value that is no \<open>Error\<close> at all.
\<close>

datatype error =
    ApiError string nat "ErrorResponse option"
  | NetworkError string
  | ValidationError "(string \<times> string) list"
  | JsError string string
  | NonError

text \<open>\<open>a || d\<close> on an optional string: \<open>undefined\<close> and the empty string are falsy.\<close>

definition js_or :: "string option \<Rightarrow> string \<Rightarrow> string" where
  "js_or a d = (case a of None \<Rightarrow> d | Some s \<Rightarrow> (if s = [] then d else s))"

definition error_name :: "error \<Rightarrow> string option" where
  "error_name e =
     (case e of
        ApiError m s d \<Rightarrow> Some ''ApiError''
      | NetworkError m \<Rightarrow> Some ''NetworkError''
      | ValidationError v \<Rightarrow> Some ''ValidationError''
      | JsError n m \<Rightarrow> Some n
      | NonError \<Rightarrow> None)"

definition error_message :: "error \<Rightarrow> string option" where
  "error_message e =
     (case e of
        ApiError m s d \<Rightarrow> Some m
      | NetworkError m \<Rightarrow> Some m
      | ValidationError v \<Rightarrow> Some ''Validation failed''
      | JsError n m \<Rightarrow> Some m
      | NonError \<Rightarrow> None)"

text \<open>Decimal rendering of a number inside a template string.\<close>

definition digit_char :: "nat \<Rightarrow> char" where
  "digit_char d = ''0123456789'' ! d"

fun show_nat :: "nat \<Rightarrow> string" where
  "show_nat n = (if n < 10 then [digit_char n] else show_nat (n div 10) @ [digit_char (n mod 10)])"

declare show_nat.simps [simp del]

section \<open>Transport client (services/apiService.ts)\<close>

text \<open>
  The durable key/value store (\<open>localStorage\<close>) is a map from keys to strings. It is
  taken to be accessible, so the \<open>catch\<close> of \<open>getToken\<close> is never entered.
\<close>

type_synonym storage = "string \<rightharpoonup> string"

text \<open>
  What \<open>response.json()\<close> gives on the non-2xx branch: the promise rejects (the body is
  not JSON), or it resolves to the JSON value \<open>null\<close>, or to any other JSON value, read
  at the shape of the fault body. A JSON value that is no object (a number, a string, an
  array) has none of the three properties and is a \<open>FaultObject\<close> with all of them
  absent.
\<close>

datatype fault_body = NotJson | JsonNull | FaultObject ErrorResponse

text \<open>
  A response as \<open>handleResponse\<close> sees it. \<open>response.json()\<close> is read at one of two
  shapes, depending on the branch that calls it: \<open>json_fault\<close> is its result on the
  non-2xx branch, \<open>json_data\<close> its result on the 2xx branch, cast to the declared type
  \<open>T\<close>: \<open>Inl m\<close> when it rejects with a \<open>SyntaxError\<close> of message \<open>m\<close>, \<open>Inr None\<close> when
  the body is the JSON value \<open>null\<close>. \<open>contentLength\<close> is
  \<open>headers.get('Content-Length')\<close>; \<open>bodyLength\<close> is the number of bytes of the body,
  which the code never reads.
\<close>

record 'a Response =
  resp_status :: nat
  statusText :: string
  contentLength :: "string option"
  bodyLength :: nat
  json_fault :: fault_body
  json_data :: "string + 'a option"

definition ok :: "'a Response \<Rightarrow> bool" where
  "ok response = (200 \<le> resp_status response \<and> resp_status response \<le> 299)"

text \<open>
  Reading a property of \<open>null\<close> throws a \<open>TypeError\<close>.
\<close>

definition null_response :: error where
  "null_response = JsError ''TypeError'' ''Cannot read properties of null''"

text \<open>
  \<open>handleResponse\<close> returns what the promise settles to (\<open>Inl\<close> a thrown error,
  \<open>Inr None\<close> for \<open>null\<close>) together with the number of calls of \<open>response.json()\<close>.
  On the non-2xx branch only a rejecting \<open>response.json()\<close> is caught; when it resolves
  to \<open>null\<close>, reading \<open>errorData.message\<close> throws a \<open>TypeError\<close> and no \<open>ApiError\<close> is
  built.
\<close>

definition handleResponse :: "'a Response \<Rightarrow> (error + 'a option) \<times> nat" where
  "handleResponse response =
     (if \<not> ok response then
        (case json_fault response of
           JsonNull \<Rightarrow> (Inl null_response, 1)
         | NotJson \<Rightarrow>
             (let errorData = \<lparr>message = Some (statusText response), userMessage = None,
                                validationErrors = None\<rparr>
              in (Inl (ApiError (js_or (message errorData) ''API request failed'')
                         (resp_status response) (Some errorData)), 1))
         | FaultObject errorData \<Rightarrow>
             (Inl (ApiError (js_or (message errorData) ''API request failed'')
                     (resp_status response) (Some errorData)), 1))
      else if resp_status response = 204 \<or> contentLength response = Some ''0'' then (Inr None, 0)
      else
        (case json_data response of
           Inl m \<Rightarrow> (Inl (JsError ''SyntaxError'' m), 1)
         | Inr v \<Rightarrow> (Inr v, 1)))"

definition getToken :: "storage \<Rightarrow> string option" where
  "getToken store = store STORAGE_KEYS_TOKEN"

text \<open>Header objects are association lists read with \<open>map_of\<close>.\<close>

definition getHeaders :: "storage \<Rightarrow> (string \<times> string) list" where
  "getHeaders store =
     [(''Content-Type'', ''application/json''), (''Accept'', ''application/json'')] @
     (case getToken store of
        None \<Rightarrow> []
      | Some t \<Rightarrow> (if t = [] then [] else [(''Authorization'', ''Bearer '' @ t)]))"

text \<open>
  Object spread \<open>{ ...base, ...over }\<close>: read with \<open>map_of\<close>, the first binding of a key
  wins, so the entries of \<open>over\<close> come first.
\<close>

definition spread :: "(string \<times> string) list \<Rightarrow> (string \<times> string) list \<Rightarrow> (string \<times> string) list" where
  "spread base over = over @ base"

text \<open>
  \<open>RequestInit\<close>: \<open>req_body\<close> is the value handed to \<open>JSON.stringify\<close>. A call of
  \<open>fetch\<close> is recorded with its URL and the merged headers.
\<close>

record 'b RequestInit =
  req_method :: "string option"
  req_body :: "'b option"
  req_headers :: "(string \<times> string) list"

record 'b FetchCall =
  fc_url :: string
  fc_method :: "string option"
  fc_body :: "'b option"
  fc_headers :: "(string \<times> string) list"

datatype 'b event = Fetch "'b FetchCall" | Delay nat

text \<open>
  What one call of \<open>fetch\<close> does: the promise rejects with an \<open>Error\<close> of the given name
  and message (a \<open>TypeError\<close> when the network fails, an \<open>AbortError\<close> when the timeout
  fires and the controller aborts), or resolves to a response.
\<close>

datatype 'a fetch_outcome = Rejects string string | Responds "'a Response"

definition shouldRetry :: "error \<Rightarrow> bool" where
  "shouldRetry e = (case e of ApiError m s d \<Rightarrow> 500 \<le> s | _ \<Rightarrow> True)"

text \<open>The body of the \<open>try\<close> block: \<open>fetch\<close>, then \<open>handleResponse\<close>.\<close>

definition attempt :: "'a fetch_outcome \<Rightarrow> error + 'a option" where
  "attempt outcome =
     (case outcome of
        Rejects n m \<Rightarrow> Inl (JsError n m)
      | Responds response \<Rightarrow> fst (handleResponse response))"

text \<open>The call of \<open>fetch\<close> that \<open>makeRequest\<close> issues: the headers are read from the store
  at this moment and merged with those of the options.\<close>

definition buildCall :: "storage \<Rightarrow> string \<Rightarrow> 'b RequestInit \<Rightarrow> 'b FetchCall" where
  "buildCall store url options =
     \<lparr>fc_url = url, fc_method = req_method options, fc_body = req_body options,
      fc_headers = spread (getHeaders store) (req_headers options)\<rparr>"

text \<open>
  \<open>makeRequest net store url options retries\<close>: \<open>net k\<close> is the outcome of the
  \<open>k\<close>-th call of \<open>fetch\<close> this request makes, counted from 0. The result is what the
  promise settles to, with the calls of \<open>fetch\<close> and the delays in order. The \<open>catch\<close>
  block is followed branch by branch: an \<open>ApiError\<close> is thrown on (as a
  \<open>ValidationError\<close> when its status is 422) before the retry test is reached.
\<close>

fun makeRequest ::
  "(nat \<Rightarrow> 'a fetch_outcome) \<Rightarrow> storage \<Rightarrow> string \<Rightarrow> 'b RequestInit \<Rightarrow> nat
     \<Rightarrow> (error + 'a option) \<times> 'b event list" where
  "makeRequest net store url options retries =
     (case attempt (net 0) of
        Inr v \<Rightarrow> (Inr v, [Fetch (buildCall store url options)])
      | Inl e \<Rightarrow>
          (case e of
             ApiError m s d \<Rightarrow>
               (if s = 422 then
                  (case d of
                     None \<Rightarrow>
                       (Inl (JsError ''TypeError'' ''Cannot read properties of undefined''),
                        [Fetch (buildCall store url options)])
                   | Some errorData \<Rightarrow>
                       (Inl (ValidationError
                               (case validationErrors errorData of None \<Rightarrow> [] | Some v \<Rightarrow> v)),
                        [Fetch (buildCall store url options)]))
                else (Inl e, [Fetch (buildCall store url options)]))
           | _ \<Rightarrow>
               (if error_name e = Some ''AbortError'' then
                  (Inl (NetworkError ''Request timeout''), [Fetch (buildCall store url options)])
                else if 0 < retries \<and> shouldRetry e then
                  (let (r, evs) = makeRequest (\<lambda>k. net (Suc k)) store url options (retries - 1)
                   in (r, Fetch (buildCall store url options) # Delay RETRY_DELAY # evs))
                else
                  (Inl (NetworkError (js_or (error_message e) ''Network request failed'')),
                   [Fetch (buildCall store url options)]))))"

declare makeRequest.simps [simp del]

subsection \<open>Data mapping\<close>

definition mapUserResponseToUser :: "UserResponse \<Rightarrow> User" where
  "mapUserResponseToUser res =
     \<lparr>user_id = ur_id res, fullName = full_name res, username = user_name res,
      email = ur_email res, avatarUrl = avatar_url res,
      user_status = (if ur_status res then Online else Offline)\<rparr>"

definition toLowerCase :: "wire_message_type \<Rightarrow> message_type" where
  "toLowerCase t = (case t of TEXT \<Rightarrow> Text | IMAGE \<Rightarrow> Image | LINK \<Rightarrow> Link | FILE \<Rightarrow> File)"

definition mapMessageResponseToMessage :: "MessageResponse \<Rightarrow> Message" where
  "mapMessageResponseToMessage res =
     \<lparr>msg_id = mr_id res, senderId = mr_senderId res, roomId = mr_roomId res,
      msg_text = mr_content res, timestamp = sentAt res,
      msg_type = toLowerCase (messageType res),
      isEdited = (mr_isEdited res = Some True),
      editedAt = mr_editedAt res,
      sender = map_option mapUserResponseToUser (mr_sender res)\<rparr>"

record ChatRoomResponse =
  cr_id :: string
  cr_name :: string
  isGroup :: bool
  cr_creatorId :: "string option"
  cr_avatarUrl :: "string option"
  cr_participants :: "UserResponse list"
  cr_lastMessage :: "MessageResponse option"

definition mapChatRoomResponseToChat :: "ChatRoomResponse \<Rightarrow> Chat" where
  "mapChatRoomResponseToChat res =
     \<lparr>chat_id = cr_id res, chat_type = (if isGroup res then Group else Dm),
      chat_name = cr_name res,
      participants = map mapUserResponseToUser (cr_participants res),
      messages = [],
      chat_avatarUrl = cr_avatarUrl res,
      lastMessage = map_option mapMessageResponseToMessage (cr_lastMessage res),
      creatorId = cr_creatorId res\<rparr>"

subsection \<open>Authentication methods\<close>

record AuthResponse =
  ar_token :: string
  ar_user :: UserResponse

text \<open>
  Reading a property of a \<open>null\<close> response (a 204, a body announced as empty, a body
  that is \<open>null\<close>) throws the \<open>TypeError\<close> \<open>null_response\<close>.
\<close>

text \<open>
  \<open>login\<close> and \<open>register\<close>: \<open>stringify\<close> stands for \<open>JSON.stringify\<close> on the user
  object. They return what the promise settles to, the store afterwards, and the
  request's events.
\<close>

definition ApiService_login ::
  "(User \<Rightarrow> string) \<Rightarrow> string \<Rightarrow> (nat \<Rightarrow> AuthResponse fetch_outcome) \<Rightarrow> storage \<Rightarrow> LoginPayload
     \<Rightarrow> (error + User \<times> string) \<times> storage \<times> LoginPayload event list" where
  "ApiService_login stringify baseUrl net store payload =
     (let (res, evs) =
            makeRequest net store (getApiUrl baseUrl AUTH_LOGIN)
              \<lparr>req_method = Some ''POST'', req_body = Some payload, req_headers = []\<rparr>
              RETRY_ATTEMPTS
      in case res of
           Inl e \<Rightarrow> (Inl e, store, evs)
         | Inr None \<Rightarrow> (Inl null_response, store, evs)
         | Inr (Some response) \<Rightarrow>
             (let store1 = store(STORAGE_KEYS_TOKEN \<mapsto> ar_token response);
                  user = mapUserResponseToUser (ar_user response);
                  store2 = store1(STORAGE_KEYS_USER \<mapsto> stringify user)
              in (Inr (user, ar_token response), store2, evs)))"

definition ApiService_register ::
  "(User \<Rightarrow> string) \<Rightarrow> string \<Rightarrow> (nat \<Rightarrow> AuthResponse fetch_outcome) \<Rightarrow> storage \<Rightarrow> RegisterPayload
     \<Rightarrow> (error + User \<times> string) \<times> storage \<times> RegisterPayload event list" where
  "ApiService_register stringify baseUrl net store payload =
     (let (res, evs) =
            makeRequest net store (getApiUrl baseUrl AUTH_REGISTER)
              \<lparr>req_method = Some ''POST'', req_body = Some payload, req_headers = []\<rparr>
              RETRY_ATTEMPTS
      in case res of
           Inl e \<Rightarrow> (Inl e, store, evs)
         | Inr None \<Rightarrow> (Inl null_response, store, evs)
         | Inr (Some response) \<Rightarrow>
             (let store1 = store(STORAGE_KEYS_TOKEN \<mapsto> ar_token response);
                  user = mapUserResponseToUser (ar_user response);
                  store2 = store1(STORAGE_KEYS_USER \<mapsto> stringify user)
              in (Inr (user, ar_token response), store2, evs)))"

definition getProfile ::
  "string \<Rightarrow> (nat \<Rightarrow> UserResponse fetch_outcome) \<Rightarrow> storage \<Rightarrow> (error + User) \<times> unit event list" where
  "getProfile baseUrl net store =
     (let (res, evs) =
            makeRequest net store (getApiUrl baseUrl AUTH_PROFILE)
              \<lparr>req_method = None, req_body = None, req_headers = []\<rparr> RETRY_ATTEMPTS
      in case res of
           Inl e \<Rightarrow> (Inl e, evs)
         | Inr None \<Rightarrow> (Inl null_response, evs)
         | Inr (Some response) \<Rightarrow> (Inr (mapUserResponseToUser response), evs))"

text \<open>
  \<open>logout\<close>: the request's failure is only logged; the \<open>finally\<close> block removes both
  keys whatever happened.
\<close>

definition ApiService_logout ::
  "string \<Rightarrow> (nat \<Rightarrow> unit fetch_outcome) \<Rightarrow> storage \<Rightarrow> storage \<times> unit event list" where
  "ApiService_logout baseUrl net store =
     (let (res, evs) =
            makeRequest net store (getApiUrl baseUrl AUTH_LOGOUT)
              \<lparr>req_method = Some ''POST'', req_body = None, req_headers = []\<rparr> RETRY_ATTEMPTS
      in (store(STORAGE_KEYS_TOKEN := None, STORAGE_KEYS_USER := None), evs))"

subsection \<open>Chat methods\<close>

definition getRooms ::
  "string \<Rightarrow> (nat \<Rightarrow> ChatRoomResponse list fetch_outcome) \<Rightarrow> storage
     \<Rightarrow> (error + Chat list) \<times> unit event list" where
  "getRooms baseUrl net store =
     (let (res, evs) =
            makeRequest net store (getApiUrl baseUrl ''/chat/rooms'')
              \<lparr>req_method = None, req_body = None, req_headers = []\<rparr> RETRY_ATTEMPTS
      in case res of
           Inl e \<Rightarrow> (Inl e, evs)
         | Inr None \<Rightarrow> (Inl null_response, evs)
         | Inr (Some response) \<Rightarrow> (Inr (map mapChatRoomResponseToChat response), evs))"

definition ApiService_sendMessage ::
  "string \<Rightarrow> (nat \<Rightarrow> MessageResponse fetch_outcome) \<Rightarrow> storage \<Rightarrow> string \<Rightarrow> SendMessagePayload
     \<Rightarrow> (error + Message) \<times> SendMessagePayload event list" where
  "ApiService_sendMessage baseUrl net store room payload =
     (let (res, evs) =
            makeRequest net store (getApiUrl baseUrl (SEND_MESSAGE room))
              \<lparr>req_method = Some ''POST'', req_body = Some payload, req_headers = []\<rparr>
              RETRY_ATTEMPTS
      in case res of
           Inl e \<Rightarrow> (Inl e, evs)
         | Inr None \<Rightarrow> (Inl null_response, evs)
         | Inr (Some response) \<Rightarrow> (Inr (mapMessageResponseToMessage response), evs))"

section \<open>Error classifier (services/errorHandler.ts)\<close>

datatype notification_type = Error | Warning | Info

text \<open>
  What a notification's button does when it is pressed. The two retry actions keep the
  \<open>context\<close> they were created with and look the registry up only when they run.
\<close>

datatype action =
    GoToLogin
  | ReloadPage
  | RetryElseReload "string option"
  | RetryOnly "string option"

record ErrorNotification =
  n_type :: notification_type
  title :: string
  n_message :: string
  duration :: "nat option"
  actions :: "(string \<times> action) list option"

text \<open>
  The effect of running an action against the registry of retry callbacks
  (\<open>retryCallbacks\<close>, a map from context strings to callbacks).
\<close>

datatype 'c effect = Invoke 'c | Reload | Navigate string | NoEffect

definition run_action :: "(string \<rightharpoonup> 'c) \<Rightarrow> action \<Rightarrow> 'c effect" where
  "run_action retryCallbacks a =
     (case a of
        GoToLogin \<Rightarrow> Navigate ''/auth''
      | ReloadPage \<Rightarrow> Reload
      | RetryElseReload ctx \<Rightarrow>
          (case retryCallbacks (js_or ctx ''default'') of
             Some retryCallback \<Rightarrow> Invoke retryCallback
           | None \<Rightarrow> Reload)
      | RetryOnly ctx \<Rightarrow>
          (case retryCallbacks (js_or ctx ''default'') of
             Some retryCallback \<Rightarrow> Invoke retryCallback
           | None \<Rightarrow> NoEffect))"

definition registerRetryCallback :: "(string \<rightharpoonup> 'c) \<Rightarrow> string \<Rightarrow> 'c \<Rightarrow> (string \<rightharpoonup> 'c)" where
  "registerRetryCallback retryCallbacks ctx callback = retryCallbacks(ctx \<mapsto> callback)"

definition unregisterRetryCallback :: "(string \<rightharpoonup> 'c) \<Rightarrow> string \<Rightarrow> (string \<rightharpoonup> 'c)" where
  "unregisterRetryCallback retryCallbacks ctx = retryCallbacks(ctx := None)"

text \<open>\<open>xs.join(sep)\<close>\<close>

fun join :: "string \<Rightarrow> string list \<Rightarrow> string" where
  "join sep [] = []"
| "join sep [x] = x"
| "join sep (x # y # ys) = x @ sep @ join sep (y # ys)"

definition validationMessages :: "(string \<times> string) list \<Rightarrow> string" where
  "validationMessages entries = join '', '' (map (\<lambda>(field, m). field @ '': '' @ m) entries)"

definition handleBadRequestError :: "ErrorResponse \<Rightarrow> ErrorNotification" where
  "handleBadRequestError errorData =
     (let baseMessage =
            js_or (userMessage errorData) (js_or (message errorData) ''Invalid request'')
      in case validationErrors errorData of
           Some v \<Rightarrow>
             \<lparr>n_type = Error, title = ''Validation Error'',
              n_message = baseMessage @ ''. '' @ validationMessages v,
              duration = Some 8000, actions = None\<rparr>
         | None \<Rightarrow>
             \<lparr>n_type = Error, title = ''Invalid Request'', n_message = baseMessage,
              duration = Some 5000, actions = None\<rparr>)"

definition handleUnauthorizedError :: "ErrorResponse \<Rightarrow> ErrorNotification" where
  "handleUnauthorizedError errorData =
     \<lparr>n_type = Error, title = ''Authentication Required'',
      n_message = js_or (userMessage errorData) ''You need to log in to access this resource'',
      duration = Some 5000, actions = Some [(''Log In'', GoToLogin)]\<rparr>"

definition handleForbiddenError :: "ErrorResponse \<Rightarrow> ErrorNotification" where
  "handleForbiddenError errorData =
     \<lparr>n_type = Error, title = ''Access Denied'',
      n_message = js_or (userMessage errorData)
                    ''You don't have permission to access this resource'',
      duration = Some 5000, actions = None\<rparr>"

definition handleNotFoundError :: "ErrorResponse \<Rightarrow> ErrorNotification" where
  "handleNotFoundError errorData =
     \<lparr>n_type = Error, title = ''Not Found'',
      n_message = js_or (userMessage errorData) ''The requested resource was not found'',
      duration = Some 5000, actions = None\<rparr>"

definition handleConflictError :: "ErrorResponse \<Rightarrow> ErrorNotification" where
  "handleConflictError errorData =
     \<lparr>n_type = Error, title = ''Conflict'',
      n_message = js_or (userMessage errorData)
                    ''A conflict occurred with the current state of the resource'',
      duration = Some 5000, actions = Some [(''Refresh'', ReloadPage)]\<rparr>"

definition handlePayloadTooLargeError :: "ErrorResponse \<Rightarrow> ErrorNotification" where
  "handlePayloadTooLargeError errorData =
     \<lparr>n_type = Error, title = ''File Too Large'',
      n_message = js_or (userMessage errorData) ''The uploaded file is too large'',
      duration = Some 5000, actions = None\<rparr>"

definition handleRateLimitError :: "ErrorResponse \<Rightarrow> ErrorNotification" where
  "handleRateLimitError errorData =
     \<lparr>n_type = Warning, title = ''Rate Limit Exceeded'',
      n_message = js_or (userMessage errorData) ''Too many requests. Please try again later'',
      duration = Some 5000, actions = None\<rparr>"

definition handleInternalServerError :: "ErrorResponse \<Rightarrow> string option \<Rightarrow> ErrorNotification" where
  "handleInternalServerError errorData ctx =
     \<lparr>n_type = Error, title = ''Server Error'',
      n_message = js_or (userMessage errorData)
                    ''A server error occurred. Please try again later'',
      duration = Some 5000, actions = Some [(''Retry'', RetryElseReload ctx)]\<rparr>"

definition handleServerUnavailableError :: "ErrorResponse \<Rightarrow> string option \<Rightarrow> ErrorNotification" where
  "handleServerUnavailableError errorData ctx =
     \<lparr>n_type = Error, title = ''Server Unavailable'',
      n_message = js_or (userMessage errorData)
                    ''The server is temporarily unavailable. Please try again later'',
      duration = Some 8000, actions = Some [(''Retry'', RetryOnly ctx)]\<rparr>"

definition handleGenericApiError :: "string \<Rightarrow> ErrorNotification" where
  "handleGenericApiError error_msg =
     \<lparr>n_type = Error, title = ''API Error'',
      n_message = js_or (Some error_msg) ''An unexpected error occurred'',
      duration = Some 5000, actions = None\<rparr>"

definition handleNetworkError :: "string option \<Rightarrow> ErrorNotification" where
  "handleNetworkError ctx =
     \<lparr>n_type = Error, title = ''Network Error'',
      n_message = ''Unable to connect to the server. Please check your internet connection and try again.'',
      duration = Some 8000, actions = Some [(''Retry'', RetryOnly ctx)]\<rparr>"

definition handleValidationError :: "(string \<times> string) list \<Rightarrow> ErrorNotification" where
  "handleValidationError v =
     \<lparr>n_type = Error, title = ''Validation Error'',
      n_message = ''Please fix the following errors: '' @ validationMessages v,
      duration = Some 8000, actions = None\<rparr>"

definition handleGenericError :: "string \<Rightarrow> ErrorNotification" where
  "handleGenericError error_msg =
     \<lparr>n_type = Error, title = ''Error'',
      n_message = js_or (Some error_msg) ''An unexpected error occurred'',
      duration = Some 5000, actions = None\<rparr>"

definition handleUnknownError :: ErrorNotification where
  "handleUnknownError =
     \<lparr>n_type = Error, title = ''Unknown Error'',
      n_message = ''An unexpected error occurred. Please try again.'',
      duration = Some 5000, actions = None\<rparr>"

text \<open>
  The status handlers are declared on an \<open>ErrorResponse\<close> and read a property of it
  first thing. An \<open>ApiError\<close> built without \<open>errorData\<close> makes that read throw a
  \<open>TypeError\<close>: \<open>reading\<close> is that step.
\<close>

definition undefined_errorData :: error where
  "undefined_errorData = JsError ''TypeError'' ''Cannot read properties of undefined''"

definition reading :: "ErrorResponse option \<Rightarrow> (ErrorResponse \<Rightarrow> 'x) \<Rightarrow> error + 'x" where
  "reading errorData f = (case errorData of None \<Rightarrow> Inl undefined_errorData | Some d \<Rightarrow> Inr (f d))"

definition handleApiError ::
  "string \<Rightarrow> nat \<Rightarrow> ErrorResponse option \<Rightarrow> string option \<Rightarrow> error + ErrorNotification" where
  "handleApiError error_msg status errorData ctx =
     (if status = 400 then reading errorData handleBadRequestError
      else if status = 401 then reading errorData handleUnauthorizedError
      else if status = 403 then reading errorData handleForbiddenError
      else if status = 404 then reading errorData handleNotFoundError
      else if status = 409 then reading errorData handleConflictError
      else if status = 413 then reading errorData handlePayloadTooLargeError
      else if status = 422 then
        reading errorData
          (\<lambda>d. handleValidationError (case validationErrors d of None \<Rightarrow> [] | Some v \<Rightarrow> v))
      else if status = 429 then reading errorData handleRateLimitError
      else if status = 500 then reading errorData (\<lambda>d. handleInternalServerError d ctx)
      else if status = 502 \<or> status = 503 \<or> status = 504 then
        reading errorData (\<lambda>d. handleServerUnavailableError d ctx)
      else Inr (handleGenericApiError error_msg))"

text \<open>
  \<open>handleError\<close> classifies by the class of the thrown value, in the source's order.
  The notification it returns is the one it hands to \<open>showNotification\<close>.
\<close>

definition handleError :: "error \<Rightarrow> string option \<Rightarrow> error + ErrorNotification" where
  "handleError e ctx =
     (case e of
        ApiError m s d \<Rightarrow> handleApiError m s d ctx
      | NetworkError m \<Rightarrow> Inr (handleNetworkError ctx)
      | ValidationError v \<Rightarrow> Inr (handleValidationError v)
      | JsError n m \<Rightarrow> Inr (handleGenericError m)
      | NonError \<Rightarrow> Inr handleUnknownError)"

section \<open>Session manager (contexts/AuthContext.tsx)\<close>

record AuthState =
  au_user :: "User option"
  au_isLoading :: bool
  au_isAuthenticated :: bool
  au_token :: "string option"

text \<open>Truthiness of an optional string, as in \<open>if (storedToken)\<close>.\<close>

definition truthy :: "string option \<Rightarrow> bool" where
  "truthy a = (case a of None \<Rightarrow> False | Some s \<Rightarrow> s \<noteq> [])"

text \<open>
  \<open>checkAuthStatus\<close>, the effect run once on startup. It returns the session state,
  the store, the notifications shown, the requests made, and the error that leaves the
  \<open>catch\<close> block if \<open>handleError\<close> itself throws. The key it reads is the literal
  \<open>'token'\<close> of the source.
\<close>

definition checkAuthStatus ::
  "string \<Rightarrow> (nat \<Rightarrow> UserResponse fetch_outcome) \<Rightarrow> (nat \<Rightarrow> unit fetch_outcome) \<Rightarrow> storage
     \<Rightarrow> AuthState
     \<Rightarrow> AuthState \<times> storage \<times> ErrorNotification list \<times> unit event list \<times> error option" where
  "checkAuthStatus baseUrl profileNet logoutNet store auth =
     (let storedToken = store ''token''
      in if truthy storedToken then
           (let (res, evs) = getProfile baseUrl profileNet store
            in case res of
                 Inr userProfile \<Rightarrow>
                   (auth\<lparr>au_user := Some userProfile, au_token := storedToken,
                         au_isAuthenticated := True, au_isLoading := False\<rparr>,
                    store, [], evs, None)
               | Inl e \<Rightarrow>
                   (case handleError e (Some ''checkAuthStatus'') of
                      Inl thrown \<Rightarrow> (auth\<lparr>au_isLoading := False\<rparr>, store, [], evs, Some thrown)
                    | Inr n \<Rightarrow>
                        (let (store1, evs1) = ApiService_logout baseUrl logoutNet store
                         in (auth\<lparr>au_isAuthenticated := False, au_user := None,
                                  au_token := None, au_isLoading := False\<rparr>,
                             store1, [n], evs @ evs1, None))))
         else (auth\<lparr>au_isAuthenticated := False, au_isLoading := False\<rparr>, store, [], [], None))"

section \<open>State synchronizer and realtime channel (contexts/ChatContext.tsx)\<close>

text \<open>
  The STOMP client that \<open>connectWebSocket\<close> creates. Its \<open>onConnect\<close> callback is a
  closure of the render that called \<open>connectWebSocket\<close>: \<open>seen_currentUser\<close> and
  \<open>seen_chats\<close> are the values of \<open>currentUser\<close> and \<open>chats\<close> it closed over.
  \<open>subscriptions\<close> are the destinations subscribed on the current connection.
\<close>

record Client =
  connected :: bool
  activated :: bool
  subscriptions :: "string list"
  connectHeader :: string
  seen_currentUser :: "User option"
  seen_chats :: "Chat list"

record ChatState =
  chats :: "Chat list"
  activeChat :: "Chat option"
  isLoading :: bool
  isWebSocketConnected :: bool
  stompClientRef :: "Client option"

definition inbox :: "User \<Rightarrow> string" where
  "inbox u = ''/user/'' @ user_id u @ ''/queue/messages''"

definition room_topic :: "string \<Rightarrow> string" where
  "room_topic room = ''/topic/room/'' @ room"

definition subscribeToRoom :: "ChatState \<Rightarrow> string \<Rightarrow> ChatState" where
  "subscribeToRoom st room =
     (case stompClientRef st of
        None \<Rightarrow> st
      | Some c \<Rightarrow>
          (if connected c then
             st\<lparr>stompClientRef := Some (c\<lparr>subscriptions := subscriptions c @ [room_topic room]\<rparr>)\<rparr>
           else st))"

text \<open>
  \<open>connectWebSocket\<close>, called by the effect on \<open>isAuthenticated\<close> with the values of
  the render it belongs to: \<open>tok\<close>, \<open>isAuth\<close> and \<open>currentUser\<close> from the session, and
  \<open>chats st\<close>, the room list of that render.
\<close>

definition connectWebSocket :: "string option \<Rightarrow> bool \<Rightarrow> User option \<Rightarrow> ChatState \<Rightarrow> ChatState" where
  "connectWebSocket tok isAuth currentUser st =
     (if \<not> truthy tok then st
      else if \<not> isAuth then st
      else if (case stompClientRef st of None \<Rightarrow> False | Some c \<Rightarrow> connected c) then st
      else
        st\<lparr>stompClientRef :=
             Some \<lparr>connected = False, activated = True, subscriptions = [],
                   connectHeader = ''Bearer '' @ js_or tok [],
                   seen_currentUser = currentUser, seen_chats = chats st\<rparr>\<rparr>)"

text \<open>
  The STOMP library is not among the sources; its contract is taken as the spec words
  it. On every successful connect, the first and each automatic reconnect, it reports
  the client connected, holds no subscription of an earlier connection, and calls
  \<open>onConnect\<close>; when the socket closes it calls \<open>onWebSocketClose\<close>. \<open>onConnect\<close> itself
  is the source's: it sets the connected flag, subscribes to the inbox of the user it
  closed over (\<open>currentUser!.id\<close> throws when there is none) and calls
  \<open>subscribeToRoom\<close> for each room of the list it closed over.
\<close>

definition onConnect :: "ChatState \<Rightarrow> ChatState \<times> error option" where
  "onConnect st =
     (case stompClientRef st of
        None \<Rightarrow> (st, None)
      | Some c \<Rightarrow>
          (let c1 = c\<lparr>connected := True, subscriptions := []\<rparr>;
               st1 = st\<lparr>stompClientRef := Some c1, isWebSocketConnected := True\<rparr>
           in case seen_currentUser c of
                None \<Rightarrow> (st1, Some null_response)
              | Some u \<Rightarrow>
                  (let st2 = st1\<lparr>stompClientRef := Some (c1\<lparr>subscriptions := [inbox u]\<rparr>)\<rparr>
                   in (foldl subscribeToRoom st2 (map chat_id (seen_chats c)), None))))"

definition onWebSocketClose :: "ChatState \<Rightarrow> ChatState" where
  "onWebSocketClose st =
     st\<lparr>isWebSocketConnected := False,
        stompClientRef := map_option (\<lambda>c. c\<lparr>connected := False, subscriptions := []\<rparr>) (stompClientRef st)\<rparr>"

text \<open>
  \<open>loadChats\<close>: replaces the room list; selects the first room when none is active.
\<close>

definition loadChats ::
  "string \<Rightarrow> (nat \<Rightarrow> ChatRoomResponse list fetch_outcome) \<Rightarrow> storage \<Rightarrow> ChatState
     \<Rightarrow> ChatState \<times> ErrorNotification list \<times> unit event list \<times> error option" where
  "loadChats baseUrl net store st =
     (let (res, evs) = getRooms baseUrl net store
      in case res of
           Inr loadedChats \<Rightarrow>
             (st\<lparr>chats := loadedChats,
                 activeChat :=
                   (if 0 < length loadedChats \<and> activeChat st = None then Some (hd loadedChats)
                    else activeChat st),
                 isLoading := False\<rparr>,
              [], evs, None)
         | Inl e \<Rightarrow>
             (case handleError e (Some ''loadChats'') of
                Inl thrown \<Rightarrow> (st\<lparr>isLoading := False\<rparr>, [], evs, Some thrown)
              | Inr n \<Rightarrow> (st\<lparr>chats := [], isLoading := False\<rparr>, [n], evs, None)))"

subsection \<open>sendMessage\<close>

text \<open>
  The provisional message. \<open>now\<close> is the reading of \<open>Date.now()\<close> that goes into the id,
  \<open>stamp\<close> the instant of \<open>new Date()\<close>.
\<close>

definition optimisticMessage :: "User \<Rightarrow> nat \<Rightarrow> nat \<Rightarrow> string \<Rightarrow> string \<Rightarrow> message_type \<Rightarrow> Message" where
  "optimisticMessage currentUser now stamp room content kind =
     \<lparr>msg_id = ''temp-'' @ show_nat now, senderId = user_id currentUser, roomId = room,
      msg_text = content, timestamp = stamp, msg_type = kind, isEdited = False,
      editedAt = None, sender = Some currentUser\<rparr>"

text \<open>The two state updates made before the persist request is awaited.\<close>

definition applyOptimistic :: "ChatState \<Rightarrow> string \<Rightarrow> Message \<Rightarrow> ChatState" where
  "applyOptimistic st room m =
     (let st1 = st\<lparr>chats :=
                    map (\<lambda>chat. if chat_id chat = room
                                then chat\<lparr>messages := messages chat @ [m]\<rparr> else chat)
                      (chats st)\<rparr>
      in case activeChat st of
           None \<Rightarrow> st1
         | Some a \<Rightarrow>
             (if chat_id a = room
              then st1\<lparr>activeChat := Some (a\<lparr>messages := messages a @ [m]\<rparr>)\<rparr>
              else st1))"

text \<open>The update of the \<open>catch\<close> block (``Revert optimistic update'').\<close>

definition revertOptimistic :: "ChatState \<Rightarrow> string \<Rightarrow> Message \<Rightarrow> ChatState" where
  "revertOptimistic st room m =
     st\<lparr>chats :=
          map (\<lambda>chat. if chat_id chat = room
                      then chat\<lparr>messages := filter (\<lambda>x. msg_id x \<noteq> msg_id m) (messages chat)\<rparr>
                      else chat)
            (chats st)\<rparr>"

text \<open>
  \<open>sendMessage_run\<close> follows one call of \<open>sendMessage\<close> through its \<open>await\<close>. Its first
  component is the state that stands while the persist request is in flight, from the
  moment the request is issued until it settles (\<open>None\<close> when the call returns before
  issuing one). The rest is the state after the call has settled, the notifications
  shown, the requests made, and the error that leaves the \<open>catch\<close> block if
  \<open>handleError\<close> throws.
\<close>

definition sendMessage_run ::
  "string \<Rightarrow> (nat \<Rightarrow> MessageResponse fetch_outcome) \<Rightarrow> storage \<Rightarrow> ChatState \<Rightarrow> User option
     \<Rightarrow> nat \<Rightarrow> nat \<Rightarrow> string \<Rightarrow> string \<Rightarrow> message_type
     \<Rightarrow> ChatState option
        \<times> ChatState \<times> ErrorNotification list \<times> SendMessagePayload event list \<times> error option" where
  "sendMessage_run baseUrl net store st currentUser now stamp room content kind =
     (case currentUser of
        None \<Rightarrow> (None, st, [], [], None)
      | Some u \<Rightarrow>
          (let m = optimisticMessage u now stamp room content kind;
               st1 = applyOptimistic st room m;
               (res, evs) =
                 ApiService_sendMessage baseUrl net store room \<lparr>smp_text = content, smp_type = kind\<rparr>
           in (Some st1,
               case res of
                 Inr confirmed \<Rightarrow> (st1, [], evs, None)
               | Inl e \<Rightarrow>
                   (case handleError e (Some ''sendMessage'') of
                      Inl thrown \<Rightarrow> (st1, [], evs, Some thrown)
                    | Inr n \<Rightarrow> (revertOptimistic st1 room m, [n], evs, None)))))"

text \<open>
  \<open>sendMessage\<close>: what the call leaves behind once it has settled.
\<close>

definition sendMessage ::
  "string \<Rightarrow> (nat \<Rightarrow> MessageResponse fetch_outcome) \<Rightarrow> storage \<Rightarrow> ChatState \<Rightarrow> User option
     \<Rightarrow> nat \<Rightarrow> nat \<Rightarrow> string \<Rightarrow> string \<Rightarrow> message_type
     \<Rightarrow> ChatState \<times> ErrorNotification list \<times> SendMessagePayload event list \<times> error option" where
  "sendMessage baseUrl net store st currentUser now stamp room content kind =
     snd (sendMessage_run baseUrl net store st currentUser now stamp room content kind)"

section \<open>Observations on traces\<close>

fun fetches :: "'b event list \<Rightarrow> 'b FetchCall list" where
  "fetches [] = []"
| "fetches (Fetch c # evs) = c # fetches evs"
| "fetches (Delay ms # evs) = fetches evs"


text \<open>
  The outcomes of an attempt that reach the retry test and pass \<open>shouldRetry\<close>: the
  \<open>try\<close> block threw something that is neither an \<open>ApiError\<close> nor an \<open>AbortError\<close>
  (a rejected \<open>fetch\<close>, a 2xx body that does not decode, or the \<open>TypeError\<close> of a non-2xx
  body that is \<open>null\<close>).
\<close>

definition retriable :: "'a fetch_outcome \<Rightarrow> bool" where
  "retriable outcome =
     (case attempt outcome of
        Inr v \<Rightarrow> False
      | Inl e \<Rightarrow>
          (case e of
             ApiError m s d \<Rightarrow> False
           | _ \<Rightarrow> error_name e \<noteq> Some ''AbortError'' \<and> shouldRetry e))"

text \<open>What a notification says, without its texts; \<open>None\<close> when classifying threw.\<close>

definition summary ::
  "error + ErrorNotification
     \<Rightarrow> (notification_type \<times> nat option \<times> (string \<times> action) list option) option" where
  "summary r = (case r of Inl e \<Rightarrow> None | Inr n \<Rightarrow> Some (n_type n, duration n, actions n))"

section \<open>Concrete scenarios\<close>

text \<open>The inputs at which the theorems below evaluate the code.\<close>

definition baseUrl0 :: string where
  "baseUrl0 = ''http://localhost:8080''"

definition alice_response :: UserResponse where
  "alice_response =
     \<lparr>ur_id = ''u1'', full_name = Some ''Alice'', user_name = Some ''alice'',
      ur_email = ''a@example.com'', avatar_url = None, ur_status = True\<rparr>"

definition alice :: User where
  "alice = mapUserResponseToUser alice_response"

definition room1_response :: ChatRoomResponse where
  "room1_response =
     \<lparr>cr_id = ''r1'', cr_name = ''General'', isGroup = True, cr_creatorId = None,
      cr_avatarUrl = None, cr_participants = [alice_response], cr_lastMessage = None\<rparr>"

definition room1 :: Chat where
  "room1 = mapChatRoomResponseToChat room1_response"

text \<open>A network that is down: every \<open>fetch\<close> rejects.\<close>

definition offline :: "nat \<Rightarrow> 'a fetch_outcome" where
  "offline k = Rejects ''TypeError'' ''Failed to fetch''"

text \<open>A 200 response whose body decodes to \<open>v\<close>.\<close>

definition answered :: "'a \<Rightarrow> 'a Response" where
  "answered v =
     \<lparr>resp_status = 200, statusText = ''OK'', contentLength = None, bodyLength = 2,
      json_fault = NotJson, json_data = Inr (Some v)\<rparr>"

text \<open>A 503 response with an empty body.\<close>

definition unavailable :: "'a Response" where
  "unavailable =
     \<lparr>resp_status = 503, statusText = ''Service Unavailable'', contentLength = Some ''0'',
      bodyLength = 0, json_fault = NotJson, json_data = Inl ''Unexpected end of JSON input''\<rparr>"

text \<open>A 200 response with an empty body and no \<open>Content-Length\<close> header.\<close>

definition empty_200 :: "'a Response" where
  "empty_200 =
     \<lparr>resp_status = 200, statusText = ''OK'', contentLength = None, bodyLength = 0,
      json_fault = NotJson, json_data = Inl ''Unexpected end of JSON input''\<rparr>"

text \<open>A 204 response.\<close>

definition no_content :: "'a Response" where
  "no_content =
     \<lparr>resp_status = 204, statusText = ''No Content'', contentLength = None, bodyLength = 0,
      json_fault = NotJson, json_data = Inl ''Unexpected end of JSON input''\<rparr>"

text \<open>The server answers 503 once and is fine afterwards.\<close>

definition unavailable_once :: "'a \<Rightarrow> nat \<Rightarrow> 'a fetch_outcome" where
  "unavailable_once v k = (if k = 0 then Responds unavailable else Responds (answered v))"





text \<open>A 404 response whose body is the JSON value \<open>null\<close>.\<close>

definition null_fault :: "'a Response" where
  "null_fault =
     \<lparr>resp_status = 404, statusText = ''Not Found'', contentLength = None, bodyLength = 4,
      json_fault = JsonNull, json_data = Inr None\<rparr>"

definition plain_get :: "unit RequestInit" where
  "plain_get = \<lparr>req_method = None, req_body = None, req_headers = []\<rparr>"

text \<open>A login that succeeds with token \<open>t\<close>, from an empty store.\<close>

definition credentials :: LoginPayload where
  "credentials = \<lparr>usernameOrEmail = ''a@example.com'', lp_password = Some ''pw''\<rparr>"

definition login_answer :: "string \<Rightarrow> nat \<Rightarrow> AuthResponse fetch_outcome" where
  "login_answer t k = Responds (answered \<lparr>ar_token = t, ar_user = alice_response\<rparr>)"

definition store_after_login :: "string \<Rightarrow> storage" where
  "store_after_login t =
     fst (snd (ApiService_login user_id baseUrl0 (login_answer t) Map.empty credentials))"

definition profile_answer :: "nat \<Rightarrow> UserResponse fetch_outcome" where
  "profile_answer k = Responds (answered alice_response)"

definition logout_answer :: "nat \<Rightarrow> unit fetch_outcome" where
  "logout_answer k = Responds no_content"

definition startup_auth :: AuthState where
  "startup_auth = \<lparr>au_user = None, au_isLoading = True, au_isAuthenticated = False, au_token = None\<rparr>"

text \<open>The chat state of the first render, and the one with \<open>room1\<close> loaded and active.\<close>

definition startup_chat :: ChatState where
  "startup_chat =
     \<lparr>chats = [], activeChat = None, isLoading = False, isWebSocketConnected = False,
      stompClientRef = None\<rparr>"

definition room1_open :: ChatState where
  "room1_open =
     \<lparr>chats = [room1], activeChat = Some room1, isLoading = False,
      isWebSocketConnected = False, stompClientRef = None\<rparr>"

definition rooms_answer :: "nat \<Rightarrow> ChatRoomResponse list fetch_outcome" where
  "rooms_answer k = Responds (answered [room1_response])"

text \<open>
  Startup of an authenticated session: the effect calls \<open>loadChats\<close> and
  \<open>connectWebSocket\<close> in the render whose room list is still empty; the rooms arrive,
  then the socket connects.
\<close>

definition session_started :: ChatState where
  "session_started =
     fst (onConnect
            (fst (loadChats baseUrl0 rooms_answer (store_after_login ''tok123'')
                    (connectWebSocket (Some ''tok123'') True (Some alice) startup_chat))))"

text \<open>The same session after the socket has closed and the client has reconnected.\<close>

definition session_reconnected :: ChatState where
  "session_reconnected = fst (onConnect (onWebSocketClose session_started))"

text \<open>A message as the server sends it.\<close>

definition server_message :: MessageResponse where
  "server_message =
     \<lparr>mr_id = ''6f1c2a'', mr_roomId = ''r1'', mr_senderId = ''u2'', mr_content = ''hello'',
      messageType = TEXT, sentAt = 7, mr_editedAt = None, mr_sender = None,
      mr_isEdited = None\<rparr>"

section \<open>The retry loop of the transport client\<close>

lemma makeRequest_retry_step:
  assumes "retriable (net 0)" and "0 < retries"
  shows "makeRequest net store url options retries =
           (fst (makeRequest (\<lambda>k. net (Suc k)) store url options (retries - 1)),
            Fetch (buildCall store url options) # Delay RETRY_DELAY #
              snd (makeRequest (\<lambda>k. net (Suc k)) store url options (retries - 1)))"
  using assms
  by (subst makeRequest.simps)
     (auto simp: retriable_def split: sum.splits error.splits prod.splits)

lemma makeRequest_exhausted:
  assumes "retriable (net 0)"
  shows "\<exists>m. makeRequest net store url options 0 =
               (Inl (NetworkError m), [Fetch (buildCall store url options)])"
  using assms
  by (subst makeRequest.simps)
     (auto simp: retriable_def split: sum.splits error.splits prod.splits)


lemma makeRequest_success:
  assumes "attempt (net 0) = Inr v"
  shows "makeRequest net store url options retries = (Inr v, [Fetch (buildCall store url options)])"
  using assms by (subst makeRequest.simps) simp

text \<open>After \<open>n\<close> retriable failures within the budget, the request goes on as a fresh one
  on the rest of the network with \<open>n\<close> retries fewer.\<close>

lemma makeRequest_skip:
  "(\<forall>k<n. retriable (net k)) \<Longrightarrow> n \<le> r \<Longrightarrow>
     makeRequest net store url options r =
       (fst (makeRequest (\<lambda>k. net (n + k)) store url options (r - n)),
        concat (replicate n [Fetch (buildCall store url options), Delay RETRY_DELAY]) @
          snd (makeRequest (\<lambda>k. net (n + k)) store url options (r - n)))"
proof (induction n arbitrary: net r)
  case 0
  then show ?case by simp
next
  case (Suc n)
  have r0: "retriable (net 0)" using Suc.prems by blast
  have pos: "0 < r" using Suc.prems by simp
  have rest: "\<forall>k<n. retriable (net (Suc k))" using Suc.prems by simp
  have le: "n \<le> r - 1" using Suc.prems by simp
  have step: "makeRequest net store url options r =
           (fst (makeRequest (\<lambda>k. net (Suc k)) store url options (r - 1)),
            Fetch (buildCall store url options) # Delay RETRY_DELAY #
              snd (makeRequest (\<lambda>k. net (Suc k)) store url options (r - 1)))"
    using makeRequest_retry_step[where net = net and retries = r and store = store
                                   and url = url and options = options, OF r0 pos] .
  have ih: "makeRequest (\<lambda>k. net (Suc k)) store url options (r - 1) =
       (fst (makeRequest (\<lambda>k. net (Suc n + k)) store url options (r - Suc n)),
        concat (replicate n [Fetch (buildCall store url options), Delay RETRY_DELAY]) @
          snd (makeRequest (\<lambda>k. net (Suc n + k)) store url options (r - Suc n)))"
    using Suc.IH[of "\<lambda>k. net (Suc k)" "r - 1", OF rest le] by simp
  show ?case
    unfolding step ih by simp
qed

lemma fetches_append: "fetches (xs @ ys) = fetches xs @ fetches ys"
  by (induction xs rule: fetches.induct) simp_all


lemma fetches_rounds:
  "fetches (concat (replicate n [Fetch c, Delay ms])) = replicate n c"
  by (induction n) simp_all





lemma attempt_answered: "attempt (Responds (answered v)) = Inr (Some v)"
  by (simp add: attempt_def handleResponse_def answered_def ok_def)


lemma attempt_unavailable:
  "attempt (Responds unavailable) =
     Inl (ApiError ''Service Unavailable'' 503
            (Some \<lparr>message = Some ''Service Unavailable'', userMessage = None,
                    validationErrors = None\<rparr>))"
  by (simp add: attempt_def handleResponse_def unavailable_def ok_def js_or_def)

text \<open>
  A 5xx fault is not retried: the \<open>catch\<close> block throws every \<open>ApiError\<close> on before it
  reaches the retry test, although \<open>shouldRetry\<close> would accept a status of 500 and above.
  Here the server answers 503 once and would answer 200 on the second call;
  \<open>makeRequest\<close> raises the 503 fault after a single call of \<open>fetch\<close> and no delay.
\<close>

theorem makeRequest_503_not_retried:
  "makeRequest (unavailable_once (7::nat)) Map.empty ''/chat/rooms'' plain_get RETRY_ATTEMPTS =
     (Inl (ApiError ''Service Unavailable'' 503
             (Some \<lparr>message = Some ''Service Unavailable'', userMessage = None,
                     validationErrors = None\<rparr>)),
      [Fetch (buildCall Map.empty ''/chat/rooms'' plain_get)])
   \<and> attempt (unavailable_once (7::nat) 1) = Inr (Some 7)
   \<and> shouldRetry (ApiError ''Service Unavailable'' 503 None)"
proof -
  have first: "attempt (unavailable_once (7::nat) 0) =
     Inl (ApiError ''Service Unavailable'' 503
            (Some \<lparr>message = Some ''Service Unavailable'', userMessage = None,
                    validationErrors = None\<rparr>))"
    by (simp add: unavailable_once_def attempt_unavailable)
  have second: "attempt (unavailable_once (7::nat) 1) = Inr (Some 7)"
    by (simp add: unavailable_once_def attempt_answered)
  have "makeRequest (unavailable_once (7::nat)) Map.empty ''/chat/rooms'' plain_get RETRY_ATTEMPTS =
     (Inl (ApiError ''Service Unavailable'' 503
             (Some \<lparr>message = Some ''Service Unavailable'', userMessage = None,
                     validationErrors = None\<rparr>)),
      [Fetch (buildCall Map.empty ''/chat/rooms'' plain_get)])"
    by (subst makeRequest.simps) (simp add: first)
  then show ?thesis
    using second by (simp add: shouldRetry_def)
qed



section \<open>The token on the wire\<close>





lemma login_answered:
  "ApiService_login user_id baseUrl0 (login_answer t) Map.empty credentials =
     (Inr (alice, t),
      [STORAGE_KEYS_TOKEN \<mapsto> t, STORAGE_KEYS_USER \<mapsto> ''u1''],
      [Fetch (buildCall Map.empty (getApiUrl baseUrl0 AUTH_LOGIN)
                \<lparr>req_method = Some ''POST'', req_body = Some credentials, req_headers = []\<rparr>)])"
proof -
  have "makeRequest (login_answer t) Map.empty (getApiUrl baseUrl0 AUTH_LOGIN)
          \<lparr>req_method = Some ''POST'', req_body = Some credentials, req_headers = []\<rparr>
          RETRY_ATTEMPTS =
        (Inr (Some \<lparr>ar_token = t, ar_user = alice_response\<rparr>),
         [Fetch (buildCall Map.empty (getApiUrl baseUrl0 AUTH_LOGIN)
                \<lparr>req_method = Some ''POST'', req_body = Some credentials, req_headers = []\<rparr>)])"
    by (rule makeRequest_success) (simp add: login_answer_def attempt_answered)
  then show ?thesis
    by (simp add: ApiService_login_def alice_def mapUserResponseToUser_def alice_response_def)
qed

lemma store_after_login_eq:
  "store_after_login t = [STORAGE_KEYS_TOKEN \<mapsto> t, STORAGE_KEYS_USER \<mapsto> ''u1'']"
  by (simp add: store_after_login_def login_answered)

lemma getToken_after_login: "getToken (store_after_login t) = Some t"
  by (simp add: store_after_login_eq getToken_def STORAGE_KEYS_TOKEN_def STORAGE_KEYS_USER_def)




section \<open>Decoding a response\<close>

text \<open>
  \<open>handleResponse\<close>, case by case. A 2xx response whose status is 204 or whose
  \<open>Content-Length\<close> header is the string \<open>0\<close> yields \<open>null\<close> with no call of
  \<open>response.json()\<close>; every other 2xx response has \<open>response.json()\<close> called once and
  yields what it resolves to, or raises its \<open>SyntaxError\<close>. A non-2xx response has
  \<open>response.json()\<close> called once and raises an \<open>ApiError\<close> with its status, unless its
  body is \<open>null\<close>, where the \<open>TypeError\<close> is raised.
\<close>

lemma handleResponse_cases:
  "(ok r \<and> (resp_status r = 204 \<or> contentLength r = Some ''0'')
      \<longrightarrow> handleResponse r = (Inr None, 0))
   \<and> (ok r \<and> resp_status r \<noteq> 204 \<and> contentLength r \<noteq> Some ''0'' \<and> json_data r = Inr v
      \<longrightarrow> handleResponse r = (Inr v, 1))
   \<and> (ok r \<and> resp_status r \<noteq> 204 \<and> contentLength r \<noteq> Some ''0'' \<and> json_data r = Inl m
      \<longrightarrow> handleResponse r = (Inl (JsError ''SyntaxError'' m), 1))
   \<and> (\<not> ok r \<and> json_fault r \<noteq> JsonNull
      \<longrightarrow> snd (handleResponse r) = 1
          \<and> (\<exists>msg d. fst (handleResponse r) = Inl (ApiError msg (resp_status r) (Some d))))
   \<and> (\<not> ok r \<and> json_fault r = JsonNull \<longrightarrow> handleResponse r = (Inl null_response, 1))"
  by (simp add: handleResponse_def Let_def split: fault_body.splits)

text \<open>
  Claim C9: a response with status 204, or whose body has zero length, yields \<open>null\<close>
  without a decoding attempt. The source sets out to ``Handle empty response body'' and
  tests the \<open>Content-Length\<close> header for the string \<open>0\<close>; the body itself is never
  looked at. A 200 response whose body has zero length and that carries no
  \<open>Content-Length\<close> header has \<open>response.json()\<close> called on it, and the \<open>SyntaxError\<close> of
  the empty input is raised instead of \<open>null\<close> being returned.
\<close>

theorem handleResponse_empty_200_decoded:
  "ok (empty_200 :: nat Response) \<and> bodyLength (empty_200 :: nat Response) = 0
   \<and> contentLength (empty_200 :: nat Response) = None
   \<and> handleResponse (empty_200 :: nat Response)
       = (Inl (JsError ''SyntaxError'' ''Unexpected end of JSON input''), 1)"
  by (simp add: handleResponse_def empty_200_def ok_def)

section \<open>The dispatch table of the error classifier\<close>

text \<open>
  The classifier on faults that carry an error body, row by row: severity, dismissal
  time and actions by status, and what the two retry actions do when they run. The 400
  row tests \<open>validationErrors\<close> for presence: an empty object is present and gets the
  8000 ms of the validation row.
\<close>

lemma handleError_dispatch:
  "summary (handleError (ApiError m 400 (Some d)) ctx)
     = Some (Error, Some (if validationErrors d = None then 5000 else 8000), None)
   \<and> summary (handleError (ApiError m 401 (Some d)) ctx)
     = Some (Error, Some 5000, Some [(''Log In'', GoToLogin)])
   \<and> summary (handleError (ApiError m 403 (Some d)) ctx) = Some (Error, Some 5000, None)
   \<and> summary (handleError (ApiError m 404 (Some d)) ctx) = Some (Error, Some 5000, None)
   \<and> summary (handleError (ApiError m 409 (Some d)) ctx)
     = Some (Error, Some 5000, Some [(''Refresh'', ReloadPage)])
   \<and> summary (handleError (ApiError m 413 (Some d)) ctx) = Some (Error, Some 5000, None)
   \<and> summary (handleError (ApiError m 422 (Some d)) ctx) = Some (Error, Some 8000, None)
   \<and> summary (handleError (ApiError m 429 (Some d)) ctx) = Some (Warning, Some 5000, None)
   \<and> summary (handleError (ApiError m 500 (Some d)) ctx)
     = Some (Error, Some 5000, Some [(''Retry'', RetryElseReload ctx)])
   \<and> (s = 502 \<or> s = 503 \<or> s = 504 \<longrightarrow>
        summary (handleError (ApiError m s (Some d)) ctx)
          = Some (Error, Some 8000, Some [(''Retry'', RetryOnly ctx)]))
   \<and> (s \<notin> {400, 401, 403, 404, 409, 413, 422, 429, 500, 502, 503, 504} \<longrightarrow>
        summary (handleError (ApiError m s e) ctx) = Some (Error, Some 5000, None))
   \<and> summary (handleError (NetworkError m) ctx)
     = Some (Error, Some 8000, Some [(''Retry'', RetryOnly ctx)])
   \<and> summary (handleError (ValidationError v) ctx) = Some (Error, Some 8000, None)
   \<and> summary (handleError (JsError n m) ctx) = Some (Error, Some 5000, None)
   \<and> summary (handleError NonError ctx) = Some (Error, Some 5000, None)
   \<and> (retryCallbacks (js_or ctx ''default'') = Some cb \<longrightarrow>
        run_action retryCallbacks (RetryElseReload ctx) = Invoke cb
        \<and> run_action retryCallbacks (RetryOnly ctx) = Invoke cb)
   \<and> (retryCallbacks (js_or ctx ''default'') = None \<longrightarrow>
        run_action retryCallbacks (RetryElseReload ctx) = Reload
        \<and> run_action retryCallbacks (RetryOnly ctx) = NoEffect)"
proof -
  have api: "\<And>s. summary (handleError (ApiError m s (Some d)) ctx) =
     summary (handleApiError m s (Some d) ctx)"
    by (simp add: handleError_def)
  have a400: "summary (handleError (ApiError m 400 (Some d)) ctx)
     = Some (Error, Some (if validationErrors d = None then 5000 else 8000), None)"
    by (simp add: handleError_def handleApiError_def reading_def summary_def
                  handleBadRequestError_def Let_def split: option.splits)
  have a401: "summary (handleError (ApiError m 401 (Some d)) ctx)
     = Some (Error, Some 5000, Some [(''Log In'', GoToLogin)])"
    by (simp add: handleError_def handleApiError_def reading_def summary_def
                  handleUnauthorizedError_def)
  have a403: "summary (handleError (ApiError m 403 (Some d)) ctx) = Some (Error, Some 5000, None)"
    by (simp add: handleError_def handleApiError_def reading_def summary_def
                  handleForbiddenError_def)
  have a404: "summary (handleError (ApiError m 404 (Some d)) ctx) = Some (Error, Some 5000, None)"
    by (simp add: handleError_def handleApiError_def reading_def summary_def
                  handleNotFoundError_def)
  have a409: "summary (handleError (ApiError m 409 (Some d)) ctx)
     = Some (Error, Some 5000, Some [(''Refresh'', ReloadPage)])"
    by (simp add: handleError_def handleApiError_def reading_def summary_def
                  handleConflictError_def)
  have a413: "summary (handleError (ApiError m 413 (Some d)) ctx) = Some (Error, Some 5000, None)"
    by (simp add: handleError_def handleApiError_def reading_def summary_def
                  handlePayloadTooLargeError_def)
  have a422: "summary (handleError (ApiError m 422 (Some d)) ctx) = Some (Error, Some 8000, None)"
    by (simp add: handleError_def handleApiError_def reading_def summary_def
                  handleValidationError_def)
  have a429: "summary (handleError (ApiError m 429 (Some d)) ctx) = Some (Warning, Some 5000, None)"
    by (simp add: handleError_def handleApiError_def reading_def summary_def
                  handleRateLimitError_def)
  have a500: "summary (handleError (ApiError m 500 (Some d)) ctx)
     = Some (Error, Some 5000, Some [(''Retry'', RetryElseReload ctx)])"
    by (simp add: handleError_def handleApiError_def reading_def summary_def
                  handleInternalServerError_def)
  have a50x: "s = 502 \<or> s = 503 \<or> s = 504 \<longrightarrow>
        summary (handleError (ApiError m s (Some d)) ctx)
          = Some (Error, Some 8000, Some [(''Retry'', RetryOnly ctx)])"
    by (auto simp add: handleError_def handleApiError_def reading_def summary_def
                  handleServerUnavailableError_def)
  have other: "s \<notin> {400, 401, 403, 404, 409, 413, 422, 429, 500, 502, 503, 504} \<longrightarrow>
        summary (handleError (ApiError m s e) ctx) = Some (Error, Some 5000, None)"
    by (simp add: handleError_def handleApiError_def summary_def handleGenericApiError_def)
  have rest: "summary (handleError (NetworkError m) ctx)
       = Some (Error, Some 8000, Some [(''Retry'', RetryOnly ctx)])
     \<and> summary (handleError (ValidationError v) ctx) = Some (Error, Some 8000, None)
     \<and> summary (handleError (JsError n m) ctx) = Some (Error, Some 5000, None)
     \<and> summary (handleError NonError ctx) = Some (Error, Some 5000, None)"
    by (simp add: handleError_def summary_def handleNetworkError_def handleValidationError_def
                  handleGenericError_def handleUnknownError_def)
  have run: "(retryCallbacks (js_or ctx ''default'') = Some cb \<longrightarrow>
        run_action retryCallbacks (RetryElseReload ctx) = Invoke cb
        \<and> run_action retryCallbacks (RetryOnly ctx) = Invoke cb)
   \<and> (retryCallbacks (js_or ctx ''default'') = None \<longrightarrow>
        run_action retryCallbacks (RetryElseReload ctx) = Reload
        \<and> run_action retryCallbacks (RetryOnly ctx) = NoEffect)"
    by (simp add: run_action_def)
  show ?thesis
    using a400 a401 a403 a404 a409 a413 a422 a429 a500 a50x other rest run by blast
qed

lemma handleError_400_empty_validationErrors:
  "summary (handleError
              (ApiError ''Bad Request'' 400
                 (Some \<lparr>message = Some ''Bad Request'', userMessage = None,
                         validationErrors = Some []\<rparr>))
              (Some ''createRoom''))
     = Some (Error, Some 8000, None)"
  by (simp add: handleError_def handleApiError_def reading_def summary_def
                handleBadRequestError_def Let_def)

text \<open>
  Claim C6: every fault passed to the classifier yields the notification of its row; a
  500 fault an error notification of 5000 ms with a retry action, a 502, 503 or 504
  fault one of 8000 ms. An \<open>ApiError\<close> built without \<open>errorData\<close>, which is how
  \<open>uploadFile\<close> builds its faults, yields no notification for these statuses: the status
  handler reads a property of \<open>undefined\<close>, and \<open>handleError\<close> throws a \<open>TypeError\<close>
  before anything is shown.
\<close>

theorem handleError_without_errorData_throws:
  "handleError (ApiError ''File upload failed'' 500 None) (Some ''uploadFile'')
     = Inl undefined_errorData
   \<and> handleError (ApiError ''File upload failed'' 503 None) (Some ''uploadFile'')
     = Inl undefined_errorData
   \<and> summary (handleError (ApiError ''File upload failed'' 500 None) (Some ''uploadFile'')) = None"
  by (simp add: handleError_def handleApiError_def reading_def summary_def)

section \<open>Optimistic sending\<close>

text \<open>
  Claim C10. A \<open>sendMessage\<close> call made while no user is present returns at once: the
  state, canonical room list and active mirror alike, is the one it was given, no
  notification is shown, nothing is thrown, and no request is issued, whatever the
  network would answer.
\<close>

theorem sendMessage_without_user:
  "sendMessage baseUrl net store st None now stamp room content kind = (st, [], [], None)"
  by (simp add: sendMessage_def sendMessage_run_def)

lemma chats_applyOptimistic:
  "chats (applyOptimistic st room m) =
     map (\<lambda>chat. if chat_id chat = room then chat\<lparr>messages := messages chat @ [m]\<rparr> else chat)
       (chats st)"
  by (simp add: applyOptimistic_def Let_def split: option.splits)

lemma activeChat_applyOptimistic:
  "activeChat (applyOptimistic st room m) =
     (case activeChat st of
        None \<Rightarrow> None
      | Some a \<Rightarrow> if chat_id a = room then Some (a\<lparr>messages := messages a @ [m]\<rparr>) else Some a)"
  by (simp add: applyOptimistic_def Let_def split: option.splits)

lemma sendMessage_run_pending:
  "fst (sendMessage_run baseUrl net store st (Some u) now stamp room content kind) =
     Some (applyOptimistic st room (optimisticMessage u now stamp room content kind))"
  by (simp add: sendMessage_run_def Let_def case_prod_beta)

text \<open>
  Claim C4. For every \<open>sendMessage\<close> call with a user present, whatever the persist
  request will answer, the state that stands while that request is in flight holds a
  provisional message \<open>m\<close>: it is appended to the message list of every room whose id is
  \<open>room\<close>, the other rooms are as they were, and when the active room has that id it is
  appended to the active mirror, which is otherwise as it was. The id of \<open>m\<close> is
  \<open>temp-\<close> followed by the decimal reading of the millisecond clock. The ids of server
  messages are copied unchanged into confirmed messages, so with the prefix \<open>temp-\<close>
  reserved, a confirmed message has no such prefix and an id other than that of \<open>m\<close>:
  the prefix tells the two apart.
\<close>

theorem sendMessage_provisional:
  "\<exists>m st1.
     fst (sendMessage_run baseUrl net store st (Some u) now stamp room content kind) = Some st1
     \<and> msg_id m = ''temp-'' @ show_nat now \<and> prefix ''temp-'' (msg_id m)
     \<and> msg_text m = content \<and> roomId m = room \<and> senderId m = user_id u
     \<and> msg_type m = kind \<and> timestamp m = stamp \<and> sender m = Some u \<and> \<not> isEdited m
     \<and> map chat_id (chats st1) = map chat_id (chats st)
     \<and> (\<forall>i < length (chats st).
           messages (chats st1 ! i) =
             (if chat_id (chats st ! i) = room then messages (chats st ! i) @ [m]
              else messages (chats st ! i)))
     \<and> (\<forall>a. activeChat st = Some a \<and> chat_id a = room
           \<longrightarrow> activeChat st1 = Some (a\<lparr>messages := messages a @ [m]\<rparr>))
     \<and> (\<forall>a. activeChat st = Some a \<and> chat_id a \<noteq> room \<longrightarrow> activeChat st1 = Some a)
     \<and> (activeChat st = None \<longrightarrow> activeChat st1 = None)
     \<and> (\<forall>res. \<not> prefix ''temp-'' (mr_id res)
           \<longrightarrow> \<not> prefix ''temp-'' (msg_id (mapMessageResponseToMessage res))
               \<and> msg_id (mapMessageResponseToMessage res) \<noteq> msg_id m)"
proof -
  define m where "m = optimisticMessage u now stamp room content kind"
  define st1 where "st1 = applyOptimistic st room m"
  have run: "fst (sendMessage_run baseUrl net store st (Some u) now stamp room content kind) = Some st1"
    by (simp add: sendMessage_run_pending st1_def m_def)
  have idm: "msg_id m = ''temp-'' @ show_nat now \<and> prefix ''temp-'' (msg_id m)
     \<and> msg_text m = content \<and> roomId m = room \<and> senderId m = user_id u
     \<and> msg_type m = kind \<and> timestamp m = stamp \<and> sender m = Some u \<and> \<not> isEdited m"
    by (simp add: m_def optimisticMessage_def)
  have ids: "map chat_id (chats st1) = map chat_id (chats st)"
    by (simp add: st1_def chats_applyOptimistic o_def if_distrib cong: if_cong)
  have msgs: "\<forall>i < length (chats st).
           messages (chats st1 ! i) =
             (if chat_id (chats st ! i) = room then messages (chats st ! i) @ [m]
              else messages (chats st ! i))"
    by (simp add: st1_def chats_applyOptimistic)
  have act: "(\<forall>a. activeChat st = Some a \<and> chat_id a = room
           \<longrightarrow> activeChat st1 = Some (a\<lparr>messages := messages a @ [m]\<rparr>))
     \<and> (\<forall>a. activeChat st = Some a \<and> chat_id a \<noteq> room \<longrightarrow> activeChat st1 = Some a)
     \<and> (activeChat st = None \<longrightarrow> activeChat st1 = None)"
    by (simp add: st1_def activeChat_applyOptimistic)
  have apart: "\<forall>res. \<not> prefix ''temp-'' (mr_id res)
           \<longrightarrow> \<not> prefix ''temp-'' (msg_id (mapMessageResponseToMessage res))
               \<and> msg_id (mapMessageResponseToMessage res) \<noteq> msg_id m"
    using idm by (auto simp: mapMessageResponseToMessage_def)
  from run idm ids msgs act apart show ?thesis
    by (intro exI[of _ m] exI[of _ st1]) blast
qed

lemma show_nat_5: "show_nat 5 = ''5''"
  by (simp add: show_nat.simps digit_char_def)

lemma room1_fields: "chat_id room1 = ''r1'' \<and> messages room1 = []"
  by (simp add: room1_def mapChatRoomResponseToChat_def room1_response_def)

text \<open>
  The theorem at \<open>alice\<close> sending ``hi'' to the open room \<open>r1\<close> at clock reading 5 while
  the network is down, and at a message the server issues under the id \<open>6f1c2a\<close>.
\<close>

theorem sendMessage_provisional_witness:
  "\<exists>m st1.
     fst (sendMessage_run baseUrl0 offline Map.empty room1_open (Some alice) 5 5 ''r1'' ''hi'' Text)
       = Some st1
     \<and> msg_id m = ''temp-5'' \<and> msg_text m = ''hi''
     \<and> map chat_id (chats st1) = [''r1'']
     \<and> messages (chats st1 ! 0) = [m]
     \<and> activeChat st1 = Some (room1\<lparr>messages := [m]\<rparr>)
     \<and> msg_id (mapMessageResponseToMessage server_message) \<noteq> msg_id m"
proof -
  obtain m st1 where
    run: "fst (sendMessage_run baseUrl0 offline Map.empty room1_open (Some alice) 5 5 ''r1'' ''hi'' Text)
            = Some st1"
    and idm: "msg_id m = ''temp-'' @ show_nat 5" and hi: "msg_text m = ''hi''"
    and ids: "map chat_id (chats st1) = map chat_id (chats room1_open)"
    and msgs: "\<forall>i < length (chats room1_open).
           messages (chats st1 ! i) =
             (if chat_id (chats room1_open ! i) = ''r1'' then messages (chats room1_open ! i) @ [m]
              else messages (chats room1_open ! i))"
    and act: "\<forall>a. activeChat room1_open = Some a \<and> chat_id a = ''r1''
           \<longrightarrow> activeChat st1 = Some (a\<lparr>messages := messages a @ [m]\<rparr>)"
    and apart: "\<forall>res. \<not> prefix ''temp-'' (mr_id res)
           \<longrightarrow> \<not> prefix ''temp-'' (msg_id (mapMessageResponseToMessage res))
               \<and> msg_id (mapMessageResponseToMessage res) \<noteq> msg_id m"
    using sendMessage_provisional[of baseUrl0 offline Map.empty room1_open alice 5 5
            "''r1''" "''hi''" Text]
    by blast
  have c: "chats room1_open = [room1]" and a: "activeChat room1_open = Some room1"
    by (simp_all add: room1_open_def)
  have m0: "messages (chats st1 ! 0) = [m]"
    using msgs by (simp add: c room1_fields)
  have a1: "activeChat st1 = Some (room1\<lparr>messages := [m]\<rparr>)"
    using act a by (simp add: room1_fields)
  have s: "\<not> prefix ''temp-'' (mr_id server_message)"
    by (simp add: server_message_def)
  have d: "msg_id (mapMessageResponseToMessage server_message) \<noteq> msg_id m"
    using apart s by blast
  from run idm hi ids m0 a1 d show ?thesis
    by (intro exI[of _ m] exI[of _ st1]) (simp add: show_nat_5 c room1_fields)
qed

section \<open>Rolling back a failed send\<close>

lemma offline_shift: "(\<lambda>k. offline (Suc k)) = offline"
  by (rule ext) (simp add: offline_def)

lemma attempt_offline: "attempt (offline k) = Inl (JsError ''TypeError'' ''Failed to fetch'')"
  by (simp add: offline_def attempt_def)

lemma makeRequest_offline:
  "fst (makeRequest offline store url options r) = Inl (NetworkError ''Failed to fetch'')"
proof (induction r)
  case 0
  show ?case
    by (subst makeRequest.simps)
       (simp add: attempt_offline error_name_def shouldRetry_def js_or_def error_message_def)
next
  case (Suc r)
  show ?case
    by (subst makeRequest.simps)
       (simp add: attempt_offline error_name_def shouldRetry_def offline_shift Suc.IH
                  case_prod_beta)
qed

lemma persist_offline:
  "fst (ApiService_sendMessage baseUrl offline store room payload)
     = Inl (NetworkError ''Failed to fetch'')"
  by (simp add: ApiService_sendMessage_def case_prod_beta makeRequest_offline)

text \<open>What the \<open>catch\<close> block leaves behind, for any fault that \<open>handleError\<close> classifies.\<close>

lemma sendMessage_failed:
  assumes "fst (ApiService_sendMessage baseUrl net store room
                  \<lparr>smp_text = content, smp_type = kind\<rparr>) = Inl e"
    and "handleError e (Some ''sendMessage'') = Inr n"
  shows "fst (sendMessage baseUrl net store st (Some u) now stamp room content kind) =
           revertOptimistic
             (applyOptimistic st room (optimisticMessage u now stamp room content kind)) room
             (optimisticMessage u now stamp room content kind)"
  using assms
  by (simp add: sendMessage_def sendMessage_run_def Let_def case_prod_beta)

lemma activeChat_revertOptimistic: "activeChat (revertOptimistic st room m) = activeChat st"
  by (simp add: revertOptimistic_def)

lemma chats_revertOptimistic:
  "chats (revertOptimistic st room m) =
     map (\<lambda>chat. if chat_id chat = room
                 then chat\<lparr>messages := filter (\<lambda>x. msg_id x \<noteq> msg_id m) (messages chat)\<rparr>
                 else chat)
       (chats st)"
  by (simp add: revertOptimistic_def)

text \<open>
  Claim C1: when the persist request fails, the provisional message is removed from both
  the canonical room state and the active mirror, which are both as before the call. The
  \<open>catch\<close> block reverts \<open>chats\<close> only. Here \<open>alice\<close> sends ``hi'' to the open room \<open>r1\<close>
  while the network is down: afterwards the message list of \<open>r1\<close> in \<open>chats\<close> is empty
  again, and the active mirror still holds the provisional message.
\<close>

theorem sendMessage_failure_keeps_mirror:
  "map messages (chats room1_open) = [[]]
   \<and> map_option messages (activeChat room1_open) = Some []
   \<and> map messages (chats (fst (sendMessage baseUrl0 offline Map.empty room1_open (Some alice)
                                  5 5 ''r1'' ''hi'' Text))) = [[]]
   \<and> map_option messages
         (activeChat (fst (sendMessage baseUrl0 offline Map.empty room1_open (Some alice)
                             5 5 ''r1'' ''hi'' Text)))
       = Some [optimisticMessage alice 5 5 ''r1'' ''hi'' Text]"
proof -
  have f: "fst (sendMessage baseUrl0 offline Map.empty room1_open (Some alice) 5 5 ''r1'' ''hi'' Text) =
           revertOptimistic
             (applyOptimistic room1_open ''r1'' (optimisticMessage alice 5 5 ''r1'' ''hi'' Text)) ''r1''
             (optimisticMessage alice 5 5 ''r1'' ''hi'' Text)"
    by (rule sendMessage_failed[where e = "NetworkError ''Failed to fetch''"
               and n = "handleNetworkError (Some ''sendMessage'')"])
       (simp_all add: persist_offline handleError_def)
  show ?thesis
    unfolding f
    by (simp add: chats_revertOptimistic activeChat_revertOptimistic chats_applyOptimistic
                  activeChat_applyOptimistic room1_open_def room1_fields)
qed

section \<open>Subscriptions after a connect\<close>

lemma foldl_subscribeToRoom:
  "stompClientRef st = Some c \<Longrightarrow> connected c \<Longrightarrow>
     foldl subscribeToRoom st rooms =
       st\<lparr>stompClientRef := Some (c\<lparr>subscriptions := subscriptions c @ map room_topic rooms\<rparr>)\<rparr>"
proof (induction rooms arbitrary: st c)
  case Nil
  then show ?case by simp
next
  case (Cons x xs)
  have s: "subscribeToRoom st x =
             st\<lparr>stompClientRef := Some (c\<lparr>subscriptions := subscriptions c @ [room_topic x]\<rparr>)\<rparr>"
    using Cons.prems by (simp add: subscribeToRoom_def)
  show ?case
    using Cons.prems
    by (simp add: s Cons.IH[of _ "c\<lparr>subscriptions := subscriptions c @ [room_topic x]\<rparr>"])
qed

text \<open>
  What \<open>onConnect\<close> subscribes to: the inbox of the user and the rooms that the client
  closed over when it was created, not the rooms of the state it runs in.
\<close>

lemma onConnect_subscriptions:
  assumes "stompClientRef st = Some c" and "seen_currentUser c = Some u"
  shows "map_option subscriptions (stompClientRef (fst (onConnect st))) =
           Some (inbox u # map room_topic (map chat_id (seen_chats c)))"
  using assms
  by (simp add: onConnect_def Let_def
        foldl_subscribeToRoom[where c = "c\<lparr>connected := True, subscriptions := [inbox u]\<rparr>"])

lemma chats_onConnect: "chats (fst (onConnect st)) = chats st"
proof (cases "stompClientRef st")
  case None
  then show ?thesis by (simp add: onConnect_def)
next
  case (Some c)
  show ?thesis
  proof (cases "seen_currentUser c")
    case None
    then show ?thesis using Some by (simp add: onConnect_def Let_def)
  next
    case (Some u)
    then show ?thesis
      using \<open>stompClientRef st = Some c\<close>
      by (simp add: onConnect_def Let_def
            foldl_subscribeToRoom[where c = "c\<lparr>connected := True, subscriptions := [inbox u]\<rparr>"])
  qed
qed

lemma getRooms_answered:
  "getRooms baseUrl0 rooms_answer store =
     (Inr [room1], [Fetch (buildCall store (getApiUrl baseUrl0 ''/chat/rooms'') plain_get)])"
proof -
  have "makeRequest rooms_answer store (getApiUrl baseUrl0 ''/chat/rooms'') plain_get RETRY_ATTEMPTS =
        (Inr (Some [room1_response]),
         [Fetch (buildCall store (getApiUrl baseUrl0 ''/chat/rooms'') plain_get)])"
    by (rule makeRequest_success) (simp add: rooms_answer_def attempt_answered)
  then show ?thesis
    by (simp add: getRooms_def room1_def plain_get_def)
qed

lemma session_loaded:
  "fst (loadChats baseUrl0 rooms_answer store
          (connectWebSocket (Some ''tok123'') True (Some alice) startup_chat)) =
     \<lparr>chats = [room1], activeChat = Some room1, isLoading = False, isWebSocketConnected = False,
      stompClientRef =
        Some \<lparr>connected = False, activated = True, subscriptions = [],
              connectHeader = ''Bearer tok123'', seen_currentUser = Some alice,
              seen_chats = []\<rparr>\<rparr>"
  by (simp add: loadChats_def getRooms_answered connectWebSocket_def startup_chat_def truthy_def
                js_or_def)

lemma inbox_alice: "inbox alice = ''/user/u1/queue/messages''"
  by (simp add: inbox_def alice_def mapUserResponseToUser_def alice_response_def)

text \<open>
  Claim C5: on every successful connect or reconnect the destinations subscribed to are
  the inbox and one destination per room known at that moment. \<open>onConnect\<close> walks the
  room list of the render that created the client. At the start of a session that list
  is empty: the rooms loaded afterwards are known to the state and are not subscribed
  to, neither on the first connect nor on a reconnect.
\<close>

theorem connect_misses_loaded_rooms:
  "map chat_id (chats session_started) = [''r1'']
   \<and> map_option subscriptions (stompClientRef session_started) = Some [''/user/u1/queue/messages'']
   \<and> map chat_id (chats session_reconnected) = [''r1'']
   \<and> map_option subscriptions (stompClientRef session_reconnected)
       = Some [''/user/u1/queue/messages'']"
proof -
  have started: "session_started =
     \<lparr>chats = [room1], activeChat = Some room1, isLoading = False, isWebSocketConnected = True,
      stompClientRef =
        Some \<lparr>connected = True, activated = True, subscriptions = [''/user/u1/queue/messages''],
              connectHeader = ''Bearer tok123'', seen_currentUser = Some alice,
              seen_chats = []\<rparr>\<rparr>"
    unfolding session_started_def session_loaded
    by (simp add: onConnect_def inbox_alice)
  have reconnected: "session_reconnected = session_started"
    unfolding session_reconnected_def started
    by (simp add: onConnect_def onWebSocketClose_def inbox_alice)
  show ?thesis
    unfolding reconnected unfolding started by (simp add: room1_fields)
qed

section \<open>Restoring a session\<close>

lemma token_key_unset: "store_after_login t ''token'' = None"
  by (simp add: store_after_login_eq STORAGE_KEYS_TOKEN_def STORAGE_KEYS_USER_def)

text \<open>
  Claim C7: on startup the token persisted by login is found and the profile fetched.
  \<open>login\<close> stores the token under \<open>STORAGE_KEYS.TOKEN\<close>, which is \<open>chitchat_token\<close>;
  \<open>checkAuthStatus\<close> reads the key \<open>token\<close>. After a login, with a server that would
  answer the profile fetch, the startup check finds no token, makes no request and
  leaves the session unauthenticated.
\<close>

theorem checkAuthStatus_misses_login_token:
  "getToken (store_after_login ''tok123'') = Some ''tok123''
   \<and> checkAuthStatus baseUrl0 profile_answer logout_answer (store_after_login ''tok123'') startup_auth
       = (\<lparr>au_user = None, au_isLoading = False, au_isAuthenticated = False, au_token = None\<rparr>,
          store_after_login ''tok123'', [], [], None)"
proof -
  have "checkAuthStatus baseUrl0 profile_answer logout_answer (store_after_login ''tok123'') startup_auth
       = (\<lparr>au_user = None, au_isLoading = False, au_isAuthenticated = False, au_token = None\<rparr>,
          store_after_login ''tok123'', [], [], None)"
    by (simp add: checkAuthStatus_def token_key_unset truthy_def startup_auth_def)
  then show ?thesis
    by (simp add: getToken_after_login)
qed

section \<open>The retry policy\<close>







text \<open>
  A fault whose body is \<open>null\<close> never becomes an \<open>ApiError\<close>: the \<open>TypeError\<close> of reading
  \<open>errorData.message\<close> reaches the retry test and passes it. A server that answers 404
  with the body \<open>null\<close> is asked four times, and the request ends as a \<open>NetworkError\<close>.
\<close>

lemma makeRequest_null_fault_retried:
  "length (fetches (snd (makeRequest (\<lambda>k. Responds (null_fault :: nat Response)) Map.empty
                            ''/chat/rooms'' plain_get RETRY_ATTEMPTS))) = 4
   \<and> (\<exists>m. fst (makeRequest (\<lambda>k. Responds (null_fault :: nat Response)) Map.empty
                   ''/chat/rooms'' plain_get RETRY_ATTEMPTS) = Inl (NetworkError m))"
proof -
  have r: "retriable (Responds (null_fault :: nat Response))"
    by (simp add: retriable_def attempt_def handleResponse_def null_fault_def ok_def
                  null_response_def error_name_def shouldRetry_def)
  have skip: "makeRequest (\<lambda>k. Responds (null_fault :: nat Response)) Map.empty ''/chat/rooms''
                plain_get 3 =
       (fst (makeRequest (\<lambda>k. Responds (null_fault :: nat Response)) Map.empty ''/chat/rooms''
               plain_get 0),
        concat (replicate 3 [Fetch (buildCall Map.empty ''/chat/rooms'' plain_get), Delay RETRY_DELAY]) @
          snd (makeRequest (\<lambda>k. Responds (null_fault :: nat Response)) Map.empty ''/chat/rooms''
                 plain_get 0))"
    using makeRequest_skip[where n = 3 and r = 3
            and net = "\<lambda>k. Responds (null_fault :: nat Response)"
            and store = Map.empty and url = "''/chat/rooms''" and options = plain_get] r
    by simp
  have last: "\<exists>m. makeRequest (\<lambda>k. Responds (null_fault :: nat Response)) Map.empty ''/chat/rooms''
                    plain_get 0 =
                 (Inl (NetworkError m), [Fetch (buildCall Map.empty ''/chat/rooms'' plain_get)])"
    using makeRequest_exhausted[where net = "\<lambda>k. Responds (null_fault :: nat Response)"
            and store = Map.empty and url = "''/chat/rooms''" and options = plain_get] r
    by simp
  show ?thesis
    unfolding RETRY_ATTEMPTS_def skip using last
    by (auto simp: fetches_append fetches_rounds)
qed




end
